theory Spec2Isabelle
  imports Main "HOL-Library.Log_Nat" "HOL-Library.Product_Lexorder" "HOL-Library.AList"
    "HOL-Library.Multiset"
begin

section \<open>Python values\<close>

text \<open>
  The bot service (\<^verbatim>\<open>src/bot-service/service.py\<close>, \<^verbatim>\<open>repository.py\<close>) handles untyped data:
  whatever \<^verbatim>\<open>json.loads\<close> returns, and whatever the extractor puts into its result
  dictionary. The values are modelled as a datatype, a dictionary as an association
  list read with \<open>map_of\<close> (the keys of a Python dictionary are unique).

  A Python \<^verbatim>\<open>float\<close> is an IEEE binary64 number: a finite float is represented by the
  rational number it denotes, next to the two infinities and NaN. The two signed zeros
  are both \<open>Finite 0\<close>; the program never tells them apart.

  Exceptions are values. Only subclasses of \<^verbatim>\<open>Exception\<close> are modelled; signals that
  derive from \<^verbatim>\<open>BaseException\<close> alone (task cancellation, interpreter exit) are outside
  the model.
\<close>

datatype pyfloat = Finite rat | PosInf | NegInf | NaN

datatype pyval =
    PNone
  | PBool bool
  | PInt int
  | PFloat pyfloat
  | PStr string
  | PList "pyval list"
  | PDict "(string \<times> pyval) list"

datatype py_exception =
    SQLAlchemyError
  | BackendError
  | JSONDecodeError
  | AttributeError
  | TypeError
  | ValueError
  | OverflowError

type_synonym pydict = "(string \<times> pyval) list"

text \<open>\<^verbatim>\<open>d.get(key, default)\<close> on a dictionary.\<close>

definition dict_get :: "pydict \<Rightarrow> string \<Rightarrow> pyval \<Rightarrow> pyval" where
  "dict_get d k dflt = (case map_of d k of Some v \<Rightarrow> v | None \<Rightarrow> dflt)"

text \<open>
  \<^verbatim>\<open>result.get(key, default)\<close> on the value \<^verbatim>\<open>json.loads\<close> returned: only a dictionary has
  the method, any other JSON value raises \<^verbatim>\<open>AttributeError\<close>.
\<close>

fun py_get :: "pyval \<Rightarrow> string \<Rightarrow> pyval \<Rightarrow> py_exception + pyval" where
  "py_get (PDict d) k dflt = Inr (dict_get d k dflt)"
| "py_get _ k dflt = Inl AttributeError"

text \<open>Truth value testing, as \<^verbatim>\<open>not x\<close> and \<^verbatim>\<open>if x\<close> use it. NaN is true.\<close>

fun truthy :: "pyval \<Rightarrow> bool" where
  "truthy PNone = False"
| "truthy (PBool b) = b"
| "truthy (PInt n) = (n \<noteq> 0)"
| "truthy (PFloat f) = (f \<noteq> Finite 0)"
| "truthy (PStr s) = (s \<noteq> [])"
| "truthy (PList xs) = (xs \<noteq> [])"
| "truthy (PDict d) = (d \<noteq> [])"

text \<open>
  \<^verbatim>\<open>x <= 0\<close>. Booleans are integers; every comparison with NaN is false; a value that
  is not a number raises \<^verbatim>\<open>TypeError\<close>.
\<close>

fun float_le_zero :: "pyfloat \<Rightarrow> bool" where
  "float_le_zero (Finite r) = (r \<le> 0)"
| "float_le_zero PosInf = False"
| "float_le_zero NegInf = True"
| "float_le_zero NaN = False"

fun le_zero :: "pyval \<Rightarrow> py_exception + bool" where
  "le_zero (PBool b) = Inr (\<not> b)"
| "le_zero (PInt n) = Inr (n \<le> 0)"
| "le_zero (PFloat f) = Inr (float_le_zero f)"
| "le_zero _ = Inl TypeError"

text \<open>\<^verbatim>\<open>x > 0\<close> on a float, to state what a strictly positive amount is.\<close>

fun float_positive :: "pyfloat \<Rightarrow> bool" where
  "float_positive (Finite r) = (0 < r)"
| "float_positive PosInf = True"
| "float_positive NegInf = False"
| "float_positive NaN = False"

subsection \<open>Rounding to binary64\<close>

text \<open>
  \<^verbatim>\<open>float(n)\<close> of an integer, \<^verbatim>\<open>float(d)\<close> of a \<^verbatim>\<open>Decimal\<close> and the sum of two floats are
  correctly rounded: the exact result is rounded to the nearest binary64 number, ties
  to the one with an even significand. \<open>round_div n d\<close> is the integer nearest to
  \<open>n / d\<close> (ties to even), \<open>floor_log2 p q\<close> the exponent \<open>e\<close> with
  \<open>2 ^ e \<le> p / q < 2 ^ (e + 1)\<close>, and \<open>round_binary64\<close> rounds to a multiple of the
  unit in the last place, \<open>2 ^ k\<close> with \<open>k = e - 52\<close> and never below \<open>- 1074\<close>. A
  magnitude that rounds to \<open>2 ^ 1024\<close> or more overflows: the rounded significand
  \<open>m\<close> is at most \<open>2 ^ 53\<close>, so that is \<open>k > 971\<close>, or \<open>k = 971\<close> and \<open>m = 2 ^ 53\<close>.
\<close>

definition round_div :: "int \<Rightarrow> int \<Rightarrow> int" where
  "round_div n d =
     (let k = n div d; r = n mod d
      in if 2 * r < d then k else if d < 2 * r then k + 1 else if even k then k else k + 1)"

definition pow2 :: "int \<Rightarrow> rat" where
  "pow2 k = (if 0 \<le> k then 2 ^ nat k else 1 / 2 ^ nat (- k))"

definition ge_pow2 :: "int \<Rightarrow> int \<Rightarrow> int \<Rightarrow> bool" where
  "ge_pow2 p q k = (if 0 \<le> k then q * 2 ^ nat k \<le> p else q \<le> p * 2 ^ nat (- k))"

definition floor_log2 :: "int \<Rightarrow> int \<Rightarrow> int" where
  "floor_log2 p q =
     (let l = bitlen p - bitlen q in if ge_pow2 p q l then l else l - 1)"

definition round_magnitude :: "int \<Rightarrow> int \<Rightarrow> rat option" where
  "round_magnitude p q =
     (let k = max (floor_log2 p q - 52) (- 1074);
          m = (if 0 \<le> k then round_div p (q * 2 ^ nat k) else round_div (p * 2 ^ nat (- k)) q)
      in if 971 < k \<or> (k = 971 \<and> 2 ^ 53 \<le> m) then None else Some (of_int m * pow2 k))"

definition round_binary64 :: "rat \<Rightarrow> pyfloat" where
  "round_binary64 x =
     (if x = 0 then Finite 0
      else case quotient_of \<bar>x\<bar> of (p, q) \<Rightarrow>
        (case round_magnitude p q of
           None \<Rightarrow> (if 0 < x then PosInf else NegInf)
         | Some y \<Rightarrow> Finite (if 0 < x then y else - y)))"


text \<open>\<^verbatim>\<open>float(n)\<close> of an integer raises \<^verbatim>\<open>OverflowError\<close> where the rounding overflows.\<close>

definition float_of_int :: "int \<Rightarrow> py_exception + pyfloat" where
  "float_of_int n =
     (case round_binary64 (of_int n) of
        Finite r \<Rightarrow> Inr (Finite r)
      | _ \<Rightarrow> Inl OverflowError)"

text \<open>
  \<^verbatim>\<open>float(x)\<close>. The program applies it to the amount only after \<^verbatim>\<open>amount <= 0\<close> has been
  evaluated, which raises on everything but a number; \<^verbatim>\<open>None\<close> and containers raise
  \<^verbatim>\<open>TypeError\<close> here as well, and a string (which the program never converts) is put
  with them.
\<close>

fun py_float :: "pyval \<Rightarrow> py_exception + pyfloat" where
  "py_float (PBool b) = Inr (Finite (if b then 1 else 0))"
| "py_float (PInt n) = float_of_int n"
| "py_float (PFloat f) = Inr f"
| "py_float _ = Inl TypeError"


section \<open>The environment\<close>

text \<open>
  What the service does not decide itself is a parameter of the model, so that every
  theorem holds for every behaviour of it:
  \<^item> \<open>llm_ainvoke\<close>: the language-model backend, from the user's message to the text of
    the completion or an exception;
  \<^item> \<open>json_loads\<close>: \<^verbatim>\<open>json.loads\<close>, from a text to the parsed value or an exception;
  \<^item> \<open>utcnow\<close>: the clock read by \<^verbatim>\<open>datetime.utcnow()\<close>;
  \<^item> \<open>db_fails\<close>: whether the database fails at a place of the repository that connects
    to it or runs a statement. SQLAlchemy reports such a failure as an
    \<^verbatim>\<open>SQLAlchemyError\<close>;
  \<^item> \<open>bind_text\<close>, \<open>bind_numeric\<close>: how the driver and the server turn a bound Python
    value into the value stored in a text or a numeric column (a value they refuse is
    a failure of the insert, \<open>db_fails InsertExpense\<close>).
\<close>

datatype db_site =
    WhitelistCheck
  | SaveConnect
  | UserIdLookup
  | InsertExpense
  | Commit
  | ListExpenses
  | ExpenseStats

datatype numeric = Num rat | NumPosInf | NumNegInf | NumNaN

record env =
  llm_ainvoke :: "string \<Rightarrow> py_exception + string"
  json_loads :: "string \<Rightarrow> py_exception + pyval"
  utcnow :: nat
  db_fails :: "db_site \<Rightarrow> bool"
  bind_text :: "pyval \<Rightarrow> string"
  bind_numeric :: "pyval \<Rightarrow> numeric"

section \<open>The repository\<close>

text \<open>
  Modelled from the spec: the two tables, whose declaration is not in the repository's
  files. \<^verbatim>\<open>users(id, telegram_id)\<close> is a list of pairs, \<^verbatim>\<open>expenses\<close> a list of rows with
  the columns \<^verbatim>\<open>user_id\<close>, \<^verbatim>\<open>description\<close>, \<^verbatim>\<open>amount\<close> (numeric), \<^verbatim>\<open>category\<close> (text) and
  \<^verbatim>\<open>added_at\<close> (a timestamp, here a number). A numeric value is an exact decimal number,
  an infinity or NaN. No constraint of the schema is assumed.
\<close>

record expenses_row =
  user_id :: int
  description :: string
  amount :: numeric
  category :: string
  added_at :: nat

record database =
  users :: "(int \<times> string) list"
  expenses :: "expenses_row list"

text \<open>
  \<^verbatim>\<open>except SQLAlchemyError\<close>: the handler's value replaces that exception and no other.
\<close>

definition except_SQLAlchemyError :: "py_exception + 'a \<Rightarrow> 'a \<Rightarrow> py_exception + 'a" where
  "except_SQLAlchemyError body handler =
     (case body of
        Inl SQLAlchemyError \<Rightarrow> Inr handler
      | Inl e \<Rightarrow> Inl e
      | Inr v \<Rightarrow> Inr v)"

text \<open>
  \<^verbatim>\<open>QUERIES["CHECK_USER_WHITELIST"]\<close>:
  \<^verbatim>\<open>SELECT id FROM users WHERE telegram_id = :telegram_id\<close>, and \<^verbatim>\<open>fetchone()\<close>.
\<close>

definition CHECK_USER_WHITELIST :: "database \<Rightarrow> string \<Rightarrow> int list" where
  "CHECK_USER_WHITELIST d telegram_id =
     map fst (filter (\<lambda>u. snd u = telegram_id) (users d))"

definition fetchone :: "'a list \<Rightarrow> 'a option" where
  "fetchone rows = (case rows of [] \<Rightarrow> None | r # _ \<Rightarrow> Some r)"

text \<open>
  Every method of the repository takes the database and returns its result with the
  database after the call.
\<close>

definition is_user_whitelisted ::
  "env \<Rightarrow> database \<Rightarrow> string \<Rightarrow> (py_exception + bool) \<times> database" where
  "is_user_whitelisted e d telegram_id =
     (except_SQLAlchemyError
        (if db_fails e WhitelistCheck then Inl SQLAlchemyError
         else Inr (fetchone (CHECK_USER_WHITELIST d telegram_id) \<noteq> None))
        False,
      d)"

definition get_user_id ::
  "env \<Rightarrow> database \<Rightarrow> string \<Rightarrow> (py_exception + int option) \<times> database" where
  "get_user_id e d telegram_id =
     (except_SQLAlchemyError
        (if db_fails e UserIdLookup then Inl SQLAlchemyError
         else Inr (fetchone (CHECK_USER_WHITELIST d telegram_id)))
        None,
      d)"

text \<open>
  \<^verbatim>\<open>save_expense\<close>. \<^verbatim>\<open>not user_id\<close> holds of \<^verbatim>\<open>None\<close> and of the integer 0. The insert and
  the commit are one transaction: a failure of either leaves the table as it was.
\<close>

fun not_user_id :: "int option \<Rightarrow> bool" where
  "not_user_id None = True"
| "not_user_id (Some i) = (i = 0)"

definition INSERT_EXPENSE ::
  "env \<Rightarrow> int option \<Rightarrow> pyval \<Rightarrow> pyval \<Rightarrow> pyval \<Rightarrow> expenses_row list" where
  "INSERT_EXPENSE e uid descr amt cat =
     (case uid of
        None \<Rightarrow> []
      | Some i \<Rightarrow>
          [\<lparr>user_id = i, description = bind_text e descr, amount = bind_numeric e amt,
            category = bind_text e cat, added_at = utcnow e\<rparr>])"

definition save_expense_try ::
  "env \<Rightarrow> database \<Rightarrow> string \<Rightarrow> pyval \<Rightarrow> pyval \<Rightarrow> pyval \<Rightarrow> (py_exception + bool) \<times> database" where
  "save_expense_try e d telegram_id descr amt cat =
     (if db_fails e SaveConnect then (Inl SQLAlchemyError, d)
      else case get_user_id e d telegram_id of
        (Inl x, d1) \<Rightarrow> (Inl x, d1)
      | (Inr uid, d1) \<Rightarrow>
          if not_user_id uid then (Inr False, d1)
          else if db_fails e InsertExpense then (Inl SQLAlchemyError, d1)
          else if db_fails e Commit then (Inl SQLAlchemyError, d1)
          else (Inr True, d1\<lparr>expenses := expenses d1 @ INSERT_EXPENSE e uid descr amt cat\<rparr>))"

definition save_expense ::
  "env \<Rightarrow> database \<Rightarrow> string \<Rightarrow> pyval \<Rightarrow> pyval \<Rightarrow> pyval \<Rightarrow> (py_exception + bool) \<times> database" where
  "save_expense e d telegram_id descr amt cat =
     (case save_expense_try e d telegram_id descr amt cat of
        (r, d1) \<Rightarrow> (except_SQLAlchemyError r False, d1))"

subsection \<open>Reading expenses back\<close>

text \<open>
  Arithmetic and order of numeric values as the server computes them: NaN absorbs every
  sum, the two infinities add up to NaN, and \<^verbatim>\<open>ORDER BY\<close> puts NaN above infinity and
  infinity above every number. \<^verbatim>\<open>SUM\<close> is exact, so numeric values form a commutative
  monoid and \<open>sum_list\<close> is the \<^verbatim>\<open>SUM\<close> of a column.
\<close>

fun numeric_add :: "numeric \<Rightarrow> numeric \<Rightarrow> numeric" where
  "numeric_add (Num a) (Num b) = Num (a + b)"
| "numeric_add NumNaN _ = NumNaN"
| "numeric_add _ NumNaN = NumNaN"
| "numeric_add NumPosInf NumNegInf = NumNaN"
| "numeric_add NumNegInf NumPosInf = NumNaN"
| "numeric_add NumPosInf _ = NumPosInf"
| "numeric_add _ NumPosInf = NumPosInf"
| "numeric_add NumNegInf _ = NumNegInf"
| "numeric_add _ NumNegInf = NumNegInf"

instantiation numeric :: comm_monoid_add
begin

definition zero_numeric :: numeric where
  "zero_numeric = Num 0"

definition plus_numeric :: "numeric \<Rightarrow> numeric \<Rightarrow> numeric" where
  "plus_numeric = numeric_add"

instance
proof
  fix a b c :: numeric
  show "a + b + c = a + (b + c)"
    unfolding plus_numeric_def by (cases a; cases b; cases c) simp_all
  show "a + b = b + a"
    unfolding plus_numeric_def by (cases a; cases b) simp_all
  show "0 + a = a"
    unfolding plus_numeric_def zero_numeric_def by (cases a) simp_all
qed

end




















section \<open>The service\<close>

subsection \<open>The extractor\<close>

text \<open>
  \<^verbatim>\<open>re.search(r'\{[\s\S]*?\}', content)\<close>: the match starts at the first opening brace
  that has a closing brace after it, and the lazy quantifier ends it at the first
  closing brace. \<open>lazy_to_close\<close> is the match of \<^verbatim>\<open>[\s\S]*?\}\<close> at the start of a text.
\<close>

fun lazy_to_close :: "string \<Rightarrow> string option" where
  "lazy_to_close [] = None"
| "lazy_to_close (c # cs) =
     (if c = CHR ''}'' then Some [c] else map_option ((#) c) (lazy_to_close cs))"

fun re_search :: "string \<Rightarrow> string option" where
  "re_search [] = None"
| "re_search (c # cs) =
     (if c = CHR ''{'' then
        (case lazy_to_close cs of Some m \<Rightarrow> Some (c # m) | None \<Rightarrow> re_search cs)
      else re_search cs)"

text \<open>
  \<^verbatim>\<open>content.strip()\<close>. A character is a code point below 256; those Python counts as
  whitespace are 9 to 13, 28 to 32, 133 and 160.
\<close>

definition isspace :: "char \<Rightarrow> bool" where
  "isspace c = ((of_char c :: nat) \<in> set [9, 10, 11, 12, 13, 28, 29, 30, 31, 32, 133, 160])"

definition strip :: "string \<Rightarrow> string" where
  "strip s = rev (dropWhile isspace (rev (dropWhile isspace s)))"

text \<open>Lines 80 to 84: the text handed to \<^verbatim>\<open>json.loads\<close>.\<close>

definition json_str :: "string \<Rightarrow> string" where
  "json_str content = (case re_search content of Some m \<Rightarrow> m | None \<Rightarrow> strip content)"

text \<open>The two dictionaries \<^verbatim>\<open>analyze_expense_message\<close> returns.\<close>

definition NOT_EXPENSE :: pydict where
  "NOT_EXPENSE = [(''is_expense'', PBool False)]"

definition EXPENSE :: "pyval \<Rightarrow> pyfloat \<Rightarrow> pyval \<Rightarrow> pydict" where
  "EXPENSE descr amt cat =
     [(''is_expense'', PBool True), (''description'', descr), (''amount'', PFloat amt),
      (''category'', cat)]"

text \<open>
  Lines 90 to 107, on the parsed \<^verbatim>\<open>result\<close>. \<^verbatim>\<open>not description or not amount or amount <= 0\<close>
  evaluates from left to right and stops at the first true operand.
\<close>

definition invalid_expense_response :: "pyval \<Rightarrow> pyval \<Rightarrow> py_exception + bool" where
  "invalid_expense_response descr amt =
     (if \<not> truthy descr then Inr True
      else if \<not> truthy amt then Inr True
      else le_zero amt)"

definition validate_response :: "pyval \<Rightarrow> py_exception + pydict" where
  "validate_response result =
     (case py_get result ''is_expense'' (PBool False) of
        Inl x \<Rightarrow> Inl x
      | Inr is_exp \<Rightarrow>
          if \<not> truthy is_exp then Inr NOT_EXPENSE
          else
            (case py_get result ''description'' PNone of
               Inl x \<Rightarrow> Inl x
             | Inr descr \<Rightarrow>
                 (case py_get result ''amount'' PNone of
                    Inl x \<Rightarrow> Inl x
                  | Inr amt \<Rightarrow>
                      (case invalid_expense_response descr amt of
                         Inl x \<Rightarrow> Inl x
                       | Inr True \<Rightarrow> Inr NOT_EXPENSE
                       | Inr False \<Rightarrow>
                           (case py_float amt of
                              Inl x \<Rightarrow> Inl x
                            | Inr f \<Rightarrow>
                                (case py_get result ''category'' (PStr ''Other'') of
                                   Inl x \<Rightarrow> Inl x
                                 | Inr cat \<Rightarrow> Inr (EXPENSE descr f cat)))))))"

text \<open>
  The body of the \<^verbatim>\<open>try\<close> (lines 71 to 107), once the backend has been called: the
  completion or the backend's exception, the search for the JSON text, the parse and the
  validation. The prompt template is built from constants before the \<^verbatim>\<open>try\<close> and does not
  depend on the message; it is part of what \<open>llm_ainvoke\<close> stands for.
\<close>

definition analyze_try :: "env \<Rightarrow> string \<Rightarrow> py_exception + pydict" where
  "analyze_try e message =
     (case llm_ainvoke e message of
        Inl x \<Rightarrow> Inl x
      | Inr content \<Rightarrow>
          (case json_loads e (json_str content) of
             Inl x \<Rightarrow> Inl x
           | Inr result \<Rightarrow> validate_response result))"

text \<open>
  The state the service works on: the database, and the messages sent to the backend so
  far (the calls of \<^verbatim>\<open>self.llm.ainvoke\<close>).
\<close>

record world =
  db :: database
  llm_calls :: "string list"

text \<open>
  \<^verbatim>\<open>analyze_expense_message\<close>: \<^verbatim>\<open>except Exception\<close> catches every exception of the body and
  returns \<^verbatim>\<open>{"is_expense": False}\<close>.
\<close>

definition analyze_expense_message ::
  "env \<Rightarrow> world \<Rightarrow> string \<Rightarrow> (py_exception + pydict) \<times> world" where
  "analyze_expense_message e w message =
     (case analyze_try e message of
        Inl x \<Rightarrow> Inr NOT_EXPENSE
      | Inr r \<Rightarrow> Inr r,
      w\<lparr>llm_calls := llm_calls w @ [message]\<rparr>)"

subsection \<open>The pipeline\<close>

text \<open>
  \<^verbatim>\<open>EXPENSE_CATEGORIES\<close>, the values of the enumeration \<^verbatim>\<open>ExpenseCategory\<close>, and the
  messages of \<^verbatim>\<open>MESSAGES\<close> that \<^verbatim>\<open>process_expense\<close> returns (\<^verbatim>\<open>EXPENSE_ADDED\<close> with the
  category formatted into it).
\<close>

definition EXPENSE_CATEGORIES :: "string list" where
  "EXPENSE_CATEGORIES =
     [''Housing'', ''Transportation'', ''Food'', ''Utilities'', ''Insurance'',
      ''Medical/Healthcare'', ''Savings'', ''Debt'', ''Education'', ''Entertainment'',
      ''Other'']"

datatype message =
    UNAUTHORIZED_USER
  | NON_EXPENSE_MESSAGE
  | INVALID_EXPENSE_DATA
  | DATABASE_SAVE_ERROR
  | EXPENSE_ADDED pyval

text \<open>
  The dictionary \<^verbatim>\<open>process_expense\<close> returns: \<^verbatim>\<open>{"success": False, "message": m}\<close>, or
  \<^verbatim>\<open>{"success": True, "category": c, "description": d, "amount": a, "message": m}\<close>.
\<close>

datatype response =
    Failure message
  | Success pyval pyval pyval message

fun success :: "response \<Rightarrow> bool" where
  "success (Failure m) = False"
| "success (Success c d a m) = True"

definition is_user_authorized ::
  "env \<Rightarrow> database \<Rightarrow> string \<Rightarrow> (py_exception + bool) \<times> database" where
  "is_user_authorized e d telegram_id = is_user_whitelisted e d telegram_id"

text \<open>Line 154, \<^verbatim>\<open>not description or amount <= 0\<close>.\<close>

definition invalid_expense_data :: "pyval \<Rightarrow> pyval \<Rightarrow> py_exception + bool" where
  "invalid_expense_data descr amt = (if \<not> truthy descr then Inr True else le_zero amt)"

text \<open>
  Lines 161 to 175, and lines 138 to 159 before them, on the dictionary the extractor
  returned.
\<close>

definition save_analysis ::
  "env \<Rightarrow> world \<Rightarrow> string \<Rightarrow> pyval \<Rightarrow> pyval \<Rightarrow> pyval \<Rightarrow> (py_exception + response) \<times> world" where
  "save_analysis e w telegram_id descr amt cat =
     (case save_expense e (db w) telegram_id descr amt cat of
        (Inl x, d) \<Rightarrow> (Inl x, w\<lparr>db := d\<rparr>)
      | (Inr True, d) \<Rightarrow> (Inr (Success cat descr amt (EXPENSE_ADDED cat)), w\<lparr>db := d\<rparr>)
      | (Inr False, d) \<Rightarrow> (Inr (Failure DATABASE_SAVE_ERROR), w\<lparr>db := d\<rparr>))"

definition process_analysis ::
  "env \<Rightarrow> world \<Rightarrow> string \<Rightarrow> pydict \<Rightarrow> (py_exception + response) \<times> world" where
  "process_analysis e w telegram_id analysis =
     (if \<not> truthy (dict_get analysis ''is_expense'' (PBool False))
      then (Inr (Failure NON_EXPENSE_MESSAGE), w)
      else
        let descr = dict_get analysis ''description'' PNone;
            amt = dict_get analysis ''amount'' (PInt 0);
            cat = dict_get analysis ''category'' (PStr ''Other'')
        in case invalid_expense_data descr amt of
             Inl x \<Rightarrow> (Inl x, w)
           | Inr True \<Rightarrow> (Inr (Failure INVALID_EXPENSE_DATA), w)
           | Inr False \<Rightarrow> save_analysis e w telegram_id descr amt cat)"

text \<open>
  \<^verbatim>\<open>process_expense\<close>, with the extractor it calls as a parameter (a test replaces
  \<^verbatim>\<open>analyze_expense_message\<close> by a stub), and with the extractor of the service.
\<close>

definition process_expense_with ::
  "(env \<Rightarrow> world \<Rightarrow> string \<Rightarrow> (py_exception + pydict) \<times> world) \<Rightarrow>
   env \<Rightarrow> world \<Rightarrow> string \<Rightarrow> string \<Rightarrow> (py_exception + response) \<times> world" where
  "process_expense_with extractor e w telegram_id message =
     (case is_user_authorized e (db w) telegram_id of
        (Inl x, d) \<Rightarrow> (Inl x, w\<lparr>db := d\<rparr>)
      | (Inr False, d) \<Rightarrow> (Inr (Failure UNAUTHORIZED_USER), w\<lparr>db := d\<rparr>)
      | (Inr True, d) \<Rightarrow>
          (case extractor e (w\<lparr>db := d\<rparr>) message of
             (Inl x, w1) \<Rightarrow> (Inl x, w1)
           | (Inr analysis, w1) \<Rightarrow> process_analysis e w1 telegram_id analysis))"

definition process_expense ::
  "env \<Rightarrow> world \<Rightarrow> string \<Rightarrow> string \<Rightarrow> (py_exception + response) \<times> world" where
  "process_expense = process_expense_with analyze_expense_message"

section \<open>A concrete environment\<close>

text \<open>
  A database with two users (one of them with the internal identifier 0), a backend
  that wraps its answer in prose, and a parser that knows that answer. The driver stores
  a string as it is and a finite float as the number it denotes.
\<close>

definition sample_db :: database where
  "sample_db = \<lparr>users = [(1, ''123456789''), (0, ''555'')], expenses = []\<rparr>"

definition sample_world :: world where
  "sample_world = \<lparr>db = sample_db, llm_calls = []\<rparr>"

definition sample_payload :: pyval where
  "sample_payload =
     PDict [(''is_expense'', PBool True), (''description'', PStr ''Pizza''),
            (''amount'', PInt 20), (''category'', PStr ''Food'')]"

definition sample_env :: env where
  "sample_env =
     \<lparr>llm_ainvoke = (\<lambda>m. Inr ''Here you go: {ok}''),
      json_loads = (\<lambda>s. if s = ''{ok}'' then Inr sample_payload else Inl JSONDecodeError),
      utcnow = 1700000000,
      db_fails = (\<lambda>s. False),
      bind_text = (\<lambda>v. case v of PStr s \<Rightarrow> s | _ \<Rightarrow> []),
      bind_numeric = (\<lambda>v. case v of PFloat (Finite r) \<Rightarrow> Num r | _ \<Rightarrow> NumNaN)\<rparr>"

text \<open>
  Two more payloads: one with a category outside \<^verbatim>\<open>EXPENSE_CATEGORIES\<close>, and one whose
  amount is NaN (\<^verbatim>\<open>json.loads\<close> reads the constant \<^verbatim>\<open>NaN\<close>).
\<close>

definition groceries_payload :: pyval where
  "groceries_payload =
     PDict [(''is_expense'', PBool True), (''description'', PStr ''Taxi''),
            (''amount'', PInt 12), (''category'', PStr ''Groceries'')]"

definition nan_payload :: pyval where
  "nan_payload =
     PDict [(''is_expense'', PBool True), (''description'', PStr ''Pizza''),
            (''amount'', PFloat NaN), (''category'', PStr ''Food'')]"



section \<open>The authorization gate and the user identifier\<close>

lemma except_SQLAlchemyError_simps [simp]:
  "except_SQLAlchemyError (Inl SQLAlchemyError) h = Inr h"
  "except_SQLAlchemyError (Inr v) h = Inr v"
  by (simp_all add: except_SQLAlchemyError_def)

lemma get_user_id_cases:
  "get_user_id e d t =
     (Inr (if db_fails e UserIdLookup then None else fetchone (CHECK_USER_WHITELIST d t)), d)"
  by (simp add: get_user_id_def)

lemma is_user_whitelisted_cases:
  "is_user_whitelisted e d t =
     (Inr (\<not> db_fails e WhitelistCheck \<and> fetchone (CHECK_USER_WHITELIST d t) \<noteq> None), d)"
  by (simp add: is_user_whitelisted_def)

lemma fetchone_None [simp]: "fetchone rows = None \<longleftrightarrow> rows = []"
  by (simp add: fetchone_def split: list.splits)

lemma CHECK_USER_WHITELIST_empty:
  "CHECK_USER_WHITELIST d t = [] \<longleftrightarrow> t \<notin> snd ` set (users d)"
  by (auto simp: CHECK_USER_WHITELIST_def filter_empty_conv image_iff)

text \<open>
  Claim C10. For a user whose internal identifier is 0, \<^verbatim>\<open>save_expense\<close> returns false and
  stores nothing, although the lookup of the identifier succeeded: \<^verbatim>\<open>not user_id\<close> is true
  of 0 as it is of \<^verbatim>\<open>None\<close>.
\<close>

theorem save_expense_user_id_zero:
  assumes "fst (get_user_id e d telegram_id) = Inr (Some 0)"
  shows "save_expense e d telegram_id descr amt cat = (Inr False, d)"
  using assms
  by (simp add: save_expense_def save_expense_try_def get_user_id_cases split: if_splits)

theorem save_expense_user_id_zero_witness:
  "fst (get_user_id sample_env sample_db ''555'') = Inr (Some 0) \<and>
   save_expense sample_env sample_db ''555'' (PStr ''Pizza'') (PFloat (Finite 20)) (PStr ''Food'')
     = (Inr False, sample_db)"
proof -
  have h: "fst (get_user_id sample_env sample_db ''555'') = Inr (Some 0)"
    by (simp add: get_user_id_cases sample_env_def sample_db_def CHECK_USER_WHITELIST_def
        fetchone_def)
  from save_expense_user_id_zero [OF h] h show ?thesis by simp
qed

text \<open>
  Claim C8. \<^verbatim>\<open>is_user_whitelisted\<close> never raises and leaves the database as it was; it
  returns false when the identifier has no entry in \<^verbatim>\<open>users\<close> and when the lookup fails
  with a database error, and so does \<^verbatim>\<open>is_user_authorized\<close>.
\<close>

theorem is_user_whitelisted_false:
  "(\<exists>b. is_user_whitelisted e d telegram_id = (Inr b, d)) \<and>
   (telegram_id \<notin> snd ` set (users d) \<or> db_fails e WhitelistCheck \<longrightarrow>
      is_user_whitelisted e d telegram_id = (Inr False, d) \<and>
      is_user_authorized e d telegram_id = (Inr False, d))"
  by (auto simp: is_user_whitelisted_cases is_user_authorized_def CHECK_USER_WHITELIST_empty)

theorem is_user_whitelisted_false_witness:
  "is_user_whitelisted sample_env sample_db ''999999999'' = (Inr False, sample_db) \<and>
   is_user_authorized (sample_env\<lparr>db_fails := \<lambda>s. True\<rparr>) sample_db ''123456789''
     = (Inr False, sample_db)"
proof -
  have a: "''999999999'' \<notin> snd ` set (users sample_db)"
    by (simp add: sample_db_def)
  have b: "db_fails (sample_env\<lparr>db_fails := \<lambda>s. True\<rparr>) WhitelistCheck"
    by simp
  from is_user_whitelisted_false [of sample_env sample_db "''999999999''"] a
    is_user_whitelisted_false [of "sample_env\<lparr>db_fails := \<lambda>s. True\<rparr>" sample_db "''123456789''"] b
  show ?thesis by blast
qed

lemma is_user_authorized_snd: "snd (is_user_authorized e d t) = d"
  by (simp add: is_user_authorized_def is_user_whitelisted_cases)

text \<open>
  Claim C5. When the gate returns false, \<^verbatim>\<open>process_expense\<close> returns the failure with the
  message \<^verbatim>\<open>UNAUTHORIZED_USER\<close> whatever the extractor is, and the state is the one it
  started from: the extractor was not run and the backend not called.
\<close>

theorem unauthorized_skips_extractor:
  assumes "fst (is_user_authorized e (db w) telegram_id) = Inr False"
  shows "process_expense_with extractor e w telegram_id message = (Inr (Failure UNAUTHORIZED_USER), w)
    \<and> process_expense e w telegram_id message = (Inr (Failure UNAUTHORIZED_USER), w)
    \<and> llm_calls (snd (process_expense e w telegram_id message)) = llm_calls w"
proof -
  have auth: "is_user_authorized e (db w) telegram_id = (Inr False, db w)"
    using assms is_user_authorized_snd [of e "db w" telegram_id]
    by (cases "is_user_authorized e (db w) telegram_id") simp
  have "process_expense_with x e w telegram_id message = (Inr (Failure UNAUTHORIZED_USER), w)" for x
    by (simp add: process_expense_with_def auth)
  then show ?thesis
    by (simp add: process_expense_def)
qed

theorem unauthorized_skips_extractor_witness:
  "fst (is_user_authorized sample_env (db sample_world) ''999999999'') = Inr False \<and>
   process_expense sample_env sample_world ''999999999'' ''Pizza 20 bucks''
     = (Inr (Failure UNAUTHORIZED_USER), sample_world) \<and>
   llm_calls (snd (process_expense sample_env sample_world ''999999999'' ''Pizza 20 bucks'')) = []"
proof -
  have h: "fst (is_user_authorized sample_env (db sample_world) ''999999999'') = Inr False"
    by (simp add: is_user_authorized_def is_user_whitelisted_cases sample_env_def sample_db_def
        sample_world_def CHECK_USER_WHITELIST_def)
  have c: "llm_calls sample_world = []"
    by (simp add: sample_world_def)
  from unauthorized_skips_extractor [OF h, of analyze_expense_message "''Pizza 20 bucks''"] h c
  show ?thesis by simp
qed

section \<open>Conversion of integers to floats\<close>

lemma round_div_ge: "0 < d \<Longrightarrow> n div d \<le> round_div n d"
  by (simp add: round_div_def Let_def)

lemma floor_log2_int_le: "floor_log2 n 1 \<le> bitlen n - 1"
  by (simp add: floor_log2_def Let_def bitlen_def compute_floorlog)

lemma pow2_pos: "0 < pow2 k"
  by (simp add: pow2_def)

lemma round_magnitude_int_pos:
  assumes n: "0 < n" and y: "round_magnitude n 1 = Some y"
  shows "0 < y"
proof -
  define k where "k = max (floor_log2 n 1 - 52) (- 1074)"
  define m where "m = (if 0 \<le> k then round_div n (1 * 2 ^ nat k) else round_div (n * 2 ^ nat (- k)) 1)"
  have "round_magnitude n 1 =
      (if 971 < k \<or> (k = 971 \<and> 2 ^ 53 \<le> m) then None else Some (of_int m * pow2 k))"
    unfolding round_magnitude_def Let_def k_def m_def ..
  with y have yk: "y = of_int m * pow2 k"
    by (simp split: if_splits)
  have "1 \<le> m"
  proof (cases "0 \<le> k")
    case True
    have b: "(2::int) ^ nat (bitlen n - 1) \<le> n"
      using bitlen_bounds [OF n] by simp
    have "k \<le> bitlen n - 1"
      using floor_log2_int_le [of n] True by (simp add: k_def)
    then have p: "(2::int) ^ nat k \<le> 2 ^ nat (bitlen n - 1)"
      by (intro power_increasing) simp_all
    have le: "(2::int) ^ nat k \<le> n"
      by (rule order_trans [OF p b])
    have "0 < n div 2 ^ nat k"
      using le pos_imp_zdiv_pos_iff [of "2 ^ nat k" n] by simp
    then have "1 \<le> n div 2 ^ nat k"
      by simp
    also have "\<dots> \<le> round_div n (2 ^ nat k)"
      by (rule round_div_ge) simp
    finally show ?thesis using True by (simp add: m_def)
  next
    case False
    have "1 \<le> n * 2 ^ nat (- k)"
      using n by (smt (verit) mult_le_cancel_left1 one_le_numeral one_le_power)
    then show ?thesis using False by (simp add: m_def round_div_def)
  qed
  then show ?thesis
    using pow2_pos [of k] by (simp add: yk)
qed

lemma float_of_int_positive:
  assumes "0 < n" and "float_of_int n = Inr f"
  shows "float_positive f"
proof -
  from assms(2) obtain r where r: "round_binary64 (of_int n) = Finite r" and f: "f = Finite r"
    by (auto simp: float_of_int_def split: pyfloat.splits)
  from assms(1) have nz: "(of_int n :: rat) \<noteq> 0" and pos: "(0::rat) < of_int n" by simp_all
  from pos have ab: "\<bar>of_int n :: rat\<bar> = of_int n" by simp
  from r obtain y where y: "round_magnitude n 1 = Some y" and ry: "r = y"
    using nz pos by (auto simp: round_binary64_def ab split: option.splits)
  from round_magnitude_int_pos [OF assms(1) y] show ?thesis
    by (simp add: f ry)
qed

section \<open>The extractor never raises\<close>

lemma validate_response_dict:
  "validate_response (PDict d) =
     (if \<not> truthy (dict_get d ''is_expense'' (PBool False)) then Inr NOT_EXPENSE
      else case invalid_expense_response (dict_get d ''description'' PNone) (dict_get d ''amount'' PNone) of
             Inl x \<Rightarrow> Inl x
           | Inr True \<Rightarrow> Inr NOT_EXPENSE
           | Inr False \<Rightarrow>
               (case py_float (dict_get d ''amount'' PNone) of
                  Inl x \<Rightarrow> Inl x
                | Inr f \<Rightarrow> Inr (EXPENSE (dict_get d ''description'' PNone) f
                                  (dict_get d ''category'' (PStr ''Other'')))))"
  by (simp add: validate_response_def split: sum.splits bool.splits)

lemma validate_response_not_dict:
  "\<forall>d. result \<noteq> PDict d \<Longrightarrow> validate_response result = Inl AttributeError"
  by (cases result) (simp_all add: validate_response_def)

lemma valid_amount_float:
  assumes "invalid_expense_response descr amt = Inr False" and "py_float amt = Inr f"
  shows "truthy descr \<and> (float_positive f \<or> f = NaN)"
proof -
  from assms(1) have d: "truthy descr" and t: "truthy amt" and l: "le_zero amt = Inr False"
    by (auto simp: invalid_expense_response_def split: if_splits)
  have "float_positive f \<or> f = NaN"
  proof (cases amt)
    case (PInt n)
    with l have "0 < n" by simp
    with assms(2) PInt show ?thesis by (simp add: float_of_int_positive)
  next
    case (PFloat g)
    with l assms(2) show ?thesis by (cases g) auto
  qed (use l assms(2) in auto)
  with d show ?thesis by simp
qed

lemma validate_response_result:
  assumes "validate_response result = Inr a"
  shows "a = NOT_EXPENSE \<or>
    (\<exists>descr f cat. a = EXPENSE descr f cat \<and> truthy descr \<and> (float_positive f \<or> f = NaN))"
proof (cases "\<exists>d. result = PDict d")
  case True
  then obtain d where r: "result = PDict d" by blast
  show ?thesis
    using assms valid_amount_float [of "dict_get d ''description'' PNone" "dict_get d ''amount'' PNone"]
    unfolding r validate_response_dict
    by (auto split: if_splits sum.splits bool.splits)
next
  case False
  then show ?thesis
    using assms validate_response_not_dict [of result] by simp
qed

lemma analyze_expense_message_cases:
  "analyze_expense_message e w m =
     (Inr (case analyze_try e m of Inl x \<Rightarrow> NOT_EXPENSE | Inr r \<Rightarrow> r),
      w\<lparr>llm_calls := llm_calls w @ [m]\<rparr>)"
  by (simp add: analyze_expense_message_def split: sum.splits)

lemma analyze_expense_message_result:
  assumes "analyze_expense_message e w m = (r, w1)"
  shows "r = Inr NOT_EXPENSE \<or>
    (\<exists>descr f cat. r = Inr (EXPENSE descr f cat) \<and> truthy descr \<and> (float_positive f \<or> f = NaN))"
proof (cases "analyze_try e m")
  case (Inl x)
  with assms show ?thesis by (simp add: analyze_expense_message_cases)
next
  case (Inr a)
  then have "\<exists>result. validate_response result = Inr a"
    by (auto simp: analyze_try_def split: sum.splits)
  then obtain result where "validate_response result = Inr a" ..
  from assms Inr have "r = Inr a"
    by (simp add: analyze_expense_message_cases)
  with validate_response_result [OF \<open>validate_response result = Inr a\<close>] show ?thesis
    by simp
qed

text \<open>
  Claim C3. \<^verbatim>\<open>analyze_expense_message\<close> returns a dictionary for every message and every
  behaviour of the backend and of the parser, it never raises; and when the backend
  raises, when \<^verbatim>\<open>json.loads\<close> raises, or when the validation of the parsed value raises,
  the dictionary is \<^verbatim>\<open>{"is_expense": False}\<close>.
\<close>

theorem analyze_expense_message_never_raises:
  "(\<exists>a. analyze_expense_message e w message = (Inr a, w\<lparr>llm_calls := llm_calls w @ [message]\<rparr>)) \<and>
   (\<forall>x. llm_ainvoke e message = Inl x \<longrightarrow>
      fst (analyze_expense_message e w message) = Inr NOT_EXPENSE) \<and>
   (\<forall>content x. llm_ainvoke e message = Inr content \<and> json_loads e (json_str content) = Inl x \<longrightarrow>
      fst (analyze_expense_message e w message) = Inr NOT_EXPENSE) \<and>
   (\<forall>content result x. llm_ainvoke e message = Inr content \<and>
        json_loads e (json_str content) = Inr result \<and> validate_response result = Inl x \<longrightarrow>
      fst (analyze_expense_message e w message) = Inr NOT_EXPENSE)"
  by (simp add: analyze_expense_message_cases analyze_try_def)

theorem analyze_expense_message_never_raises_witness:
  "llm_ainvoke (sample_env\<lparr>llm_ainvoke := \<lambda>m. Inl BackendError\<rparr>) ''Pizza 20 bucks'' = Inl BackendError \<and>
   fst (analyze_expense_message (sample_env\<lparr>llm_ainvoke := \<lambda>m. Inl BackendError\<rparr>) sample_world
          ''Pizza 20 bucks'') = Inr NOT_EXPENSE \<and>
   llm_ainvoke (sample_env\<lparr>llm_ainvoke := \<lambda>m. Inr ''not json''\<rparr>) ''Pizza 20 bucks'' = Inr ''not json'' \<and>
   json_loads (sample_env\<lparr>llm_ainvoke := \<lambda>m. Inr ''not json''\<rparr>) (json_str ''not json'')
     = Inl JSONDecodeError \<and>
   fst (analyze_expense_message (sample_env\<lparr>llm_ainvoke := \<lambda>m. Inr ''not json''\<rparr>) sample_world
          ''Pizza 20 bucks'') = Inr NOT_EXPENSE \<and>
   llm_ainvoke (sample_env\<lparr>json_loads := \<lambda>s. Inr (PList [])\<rparr>) ''Pizza 20 bucks''
     = Inr ''Here you go: {ok}'' \<and>
   validate_response (PList []) = Inl AttributeError \<and>
   fst (analyze_expense_message (sample_env\<lparr>json_loads := \<lambda>s. Inr (PList [])\<rparr>) sample_world
          ''Pizza 20 bucks'') = Inr NOT_EXPENSE"
proof -
  let ?e1 = "sample_env\<lparr>llm_ainvoke := \<lambda>m. Inl BackendError\<rparr>"
  let ?e2 = "sample_env\<lparr>llm_ainvoke := \<lambda>m. Inr ''not json''\<rparr>"
  let ?e3 = "sample_env\<lparr>json_loads := \<lambda>s. Inr (PList [])\<rparr>"
  have a: "llm_ainvoke ?e1 ''Pizza 20 bucks'' = Inl BackendError"
    by simp
  have b: "llm_ainvoke ?e2 ''Pizza 20 bucks'' = Inr ''not json''"
    "json_loads ?e2 (json_str ''not json'') = Inl JSONDecodeError"
    by (simp_all add: sample_env_def json_str_def strip_def isspace_def)
  have c: "llm_ainvoke ?e3 ''Pizza 20 bucks'' = Inr ''Here you go: {ok}''"
    "json_loads ?e3 (json_str ''Here you go: {ok}'') = Inr (PList [])"
    "validate_response (PList []) = Inl AttributeError"
    by (simp_all add: sample_env_def validate_response_def)
  from analyze_expense_message_never_raises [of ?e1 sample_world "''Pizza 20 bucks''"]
    analyze_expense_message_never_raises [of ?e2 sample_world "''Pizza 20 bucks''"]
    analyze_expense_message_never_raises [of ?e3 sample_world "''Pizza 20 bucks''"]
    a b c
  show ?thesis by blast
qed

text \<open>
  Claim C4. For every parsed payload (a dictionary \<open>d\<close>): when \<^verbatim>\<open>is_expense\<close> is false or
  absent the result is \<^verbatim>\<open>{"is_expense": False}\<close>; when it is true and the description is
  absent, null or empty, or the amount is absent or null, or the amount is at most 0,
  the result is \<^verbatim>\<open>{"is_expense": False}\<close> as well, not an error; and the extractor
  returns that result for such a payload.
\<close>

theorem not_an_expense_conditions:
  "(\<not> truthy (dict_get d ''is_expense'' (PBool False)) \<longrightarrow>
      validate_response (PDict d) = Inr NOT_EXPENSE) \<and>
   (truthy (dict_get d ''is_expense'' (PBool False)) \<and>
      (map_of d ''description'' \<in> {None, Some PNone, Some (PStr [])} \<or>
       map_of d ''amount'' \<in> {None, Some PNone} \<or>
       le_zero (dict_get d ''amount'' PNone) = Inr True) \<longrightarrow>
      validate_response (PDict d) = Inr NOT_EXPENSE) \<and>
   (llm_ainvoke e message = Inr content \<and> json_loads e (json_str content) = Inr (PDict d) \<and>
      validate_response (PDict d) = Inr NOT_EXPENSE \<longrightarrow>
      fst (analyze_expense_message e w message) = Inr NOT_EXPENSE)"
proof (intro conjI impI)
  assume "\<not> truthy (dict_get d ''is_expense'' (PBool False))"
  then show "validate_response (PDict d) = Inr NOT_EXPENSE"
    by (simp add: validate_response_dict)
next
  assume a: "truthy (dict_get d ''is_expense'' (PBool False)) \<and>
      (map_of d ''description'' \<in> {None, Some PNone, Some (PStr [])} \<or>
       map_of d ''amount'' \<in> {None, Some PNone} \<or>
       le_zero (dict_get d ''amount'' PNone) = Inr True)"
  then have "invalid_expense_response (dict_get d ''description'' PNone) (dict_get d ''amount'' PNone)
      = Inr True"
    by (auto simp: invalid_expense_response_def dict_get_def)
  with a show "validate_response (PDict d) = Inr NOT_EXPENSE"
    by (simp add: validate_response_dict)
next
  assume "llm_ainvoke e message = Inr content \<and> json_loads e (json_str content) = Inr (PDict d) \<and>
      validate_response (PDict d) = Inr NOT_EXPENSE"
  then show "fst (analyze_expense_message e w message) = Inr NOT_EXPENSE"
    by (simp add: analyze_expense_message_cases analyze_try_def)
qed

theorem not_an_expense_conditions_witness:
  "\<not> truthy (dict_get [(''is_expense'', PBool False)] ''is_expense'' (PBool False)) \<and>
   validate_response (PDict [(''is_expense'', PBool False)]) = Inr NOT_EXPENSE \<and>
   le_zero (dict_get [(''is_expense'', PBool True), (''description'', PStr ''Refund''),
                      (''amount'', PInt (- 5))] ''amount'' PNone) = Inr True \<and>
   validate_response (PDict [(''is_expense'', PBool True), (''description'', PStr ''Refund''),
                             (''amount'', PInt (- 5))]) = Inr NOT_EXPENSE \<and>
   fst (analyze_expense_message
          (sample_env\<lparr>json_loads := \<lambda>s. Inr (PDict [(''is_expense'', PBool True),
             (''description'', PStr ''Refund''), (''amount'', PInt (- 5))])\<rparr>)
          sample_world ''Refund -5'') = Inr NOT_EXPENSE"
proof -
  let ?d1 = "[(''is_expense'', PBool False)]"
  let ?d2 = "[(''is_expense'', PBool True), (''description'', PStr ''Refund''), (''amount'', PInt (- 5))]"
  let ?e = "sample_env\<lparr>json_loads := \<lambda>s. Inr (PDict ?d2)\<rparr>"
  have a: "\<not> truthy (dict_get ?d1 ''is_expense'' (PBool False))"
    by (simp add: dict_get_def)
  have b: "truthy (dict_get ?d2 ''is_expense'' (PBool False))"
    "le_zero (dict_get ?d2 ''amount'' PNone) = Inr True"
    by (simp_all add: dict_get_def)
  have c: "llm_ainvoke ?e ''Refund -5'' = Inr ''Here you go: {ok}''"
    "json_loads ?e (json_str ''Here you go: {ok}'') = Inr (PDict ?d2)"
    by (simp_all add: sample_env_def)
  from not_an_expense_conditions [where d = ?d1] a
  have 1: "validate_response (PDict ?d1) = Inr NOT_EXPENSE" by blast
  from not_an_expense_conditions [where d = ?d2] b
  have 2: "validate_response (PDict ?d2) = Inr NOT_EXPENSE" by blast
  from not_an_expense_conditions [where d = ?d2 and e = ?e and message = "''Refund -5''"
      and content = "''Here you go: {ok}''" and w = sample_world] c 2
  have 3: "fst (analyze_expense_message ?e sample_world ''Refund -5'') = Inr NOT_EXPENSE" by blast
  from a b 1 2 3 show ?thesis by blast
qed

section \<open>Saving an expense\<close>

lemma save_expense_cases:
  "save_expense e d t descr amt cat =
     (if db_fails e SaveConnect \<or> db_fails e UserIdLookup
         \<or> not_user_id (fetchone (CHECK_USER_WHITELIST d t))
         \<or> db_fails e InsertExpense \<or> db_fails e Commit
      then (Inr False, d)
      else (Inr True,
            d\<lparr>expenses := expenses d
                 @ INSERT_EXPENSE e (fetchone (CHECK_USER_WHITELIST d t)) descr amt cat\<rparr>))"
  by (simp add: save_expense_def save_expense_try_def get_user_id_cases)

lemma INSERT_EXPENSE_row:
  "\<not> not_user_id uid \<Longrightarrow>
   \<exists>row. INSERT_EXPENSE e uid descr amt cat = [row] \<and> added_at row = utcnow e
      \<and> Some (user_id row) = uid \<and> description row = bind_text e descr
      \<and> amount row = bind_numeric e amt \<and> category row = bind_text e cat"
  by (cases uid) (simp_all add: INSERT_EXPENSE_def)

lemma save_analysis_cases:
  "save_analysis e w t descr amt cat =
     (if fst (save_expense e (db w) t descr amt cat) = Inr True
      then (Inr (Success cat descr amt (EXPENSE_ADDED cat)),
            w\<lparr>db := snd (save_expense e (db w) t descr amt cat)\<rparr>)
      else (Inr (Failure DATABASE_SAVE_ERROR), w))"
  by (simp add: save_analysis_def save_expense_cases)

lemma process_analysis_NOT_EXPENSE:
  "process_analysis e w t NOT_EXPENSE = (Inr (Failure NON_EXPENSE_MESSAGE), w)"
  by (simp add: process_analysis_def NOT_EXPENSE_def dict_get_def)

lemma process_analysis_EXPENSE:
  assumes "truthy descr" and "float_positive f \<or> f = NaN"
  shows "process_analysis e w t (EXPENSE descr f cat) = save_analysis e w t descr (PFloat f) cat"
proof -
  from assms(2) have "\<not> float_le_zero f" by (cases f) auto
  with assms(1) show ?thesis
    by (simp add: process_analysis_def EXPENSE_def dict_get_def invalid_expense_data_def)
qed

lemma process_expense_cases:
  "process_expense e w t m =
     (if fst (is_user_authorized e (db w) t) = Inr True
      then process_analysis e (w\<lparr>llm_calls := llm_calls w @ [m]\<rparr>) t
             (case analyze_try e m of Inl x \<Rightarrow> NOT_EXPENSE | Inr r \<Rightarrow> r)
      else (Inr (Failure UNAUTHORIZED_USER), w))"
  by (simp add: process_expense_def process_expense_with_def is_user_authorized_def
      is_user_whitelisted_cases analyze_expense_message_cases)

lemma process_expense_outcomes:
  "\<exists>w1. process_expense e w t m = (Inr (Failure UNAUTHORIZED_USER), w1)
      \<or> process_expense e w t m = (Inr (Failure NON_EXPENSE_MESSAGE), w1)
      \<or> process_expense e w t m = (Inr (Failure DATABASE_SAVE_ERROR), w1)
      \<or> (\<exists>cat descr f. process_expense e w t m
            = (Inr (Success cat descr (PFloat f) (EXPENSE_ADDED cat)), w1)
          \<and> truthy descr \<and> (float_positive f \<or> f = NaN))"
proof (cases "fst (is_user_authorized e (db w) t) = Inr True")
  case False
  then show ?thesis by (simp add: process_expense_cases)
next
  case True
  let ?w = "w\<lparr>llm_calls := llm_calls w @ [m]\<rparr>"
  obtain r w1 where a: "analyze_expense_message e w m = (r, w1)" by force
  then have r: "r = Inr (case analyze_try e m of Inl x \<Rightarrow> NOT_EXPENSE | Inr r \<Rightarrow> r)"
    by (simp add: analyze_expense_message_cases)
  from analyze_expense_message_result [OF a]
  show ?thesis
  proof
    assume "r = Inr NOT_EXPENSE"
    with r True show ?thesis
      by (simp add: process_expense_cases process_analysis_NOT_EXPENSE)
  next
    assume "\<exists>descr f cat. r = Inr (EXPENSE descr f cat) \<and> truthy descr \<and> (float_positive f \<or> f = NaN)"
    then obtain descr f cat where x: "r = Inr (EXPENSE descr f cat)" "truthy descr"
      "float_positive f \<or> f = NaN" by blast
    from x(1) r True have "process_expense e w t m = save_analysis e ?w t descr (PFloat f) cat"
      by (simp add: process_expense_cases process_analysis_EXPENSE [OF x(2,3)])
    with x(2,3) show ?thesis
      by (auto simp: save_analysis_cases)
  qed
qed

lemma process_expense_never_invalid:
  "fst (process_expense e w t m) \<noteq> Inr (Failure INVALID_EXPENSE_DATA)"
  using process_expense_outcomes [of e w t m] by auto

text \<open>
  Claim C6. \<^verbatim>\<open>save_expense\<close> never raises. It returns false, and stores nothing, when the
  connection, the lookup of the user, the insert or the commit fails and when the
  identifier has no user. When it returns true the table holds exactly one more row: the
  resolved user, the description, amount and category it was given (as the driver binds
  them) and the current timestamp. In \<^verbatim>\<open>process_expense\<close> a false return
  gives the failure with the message \<^verbatim>\<open>DATABASE_SAVE_ERROR\<close>, and \<^verbatim>\<open>process_expense\<close> with the
  extractor of the service never raises.
\<close>

theorem save_expense_never_raises:
  "(\<exists>b d1. save_expense e d telegram_id descr amt cat = (Inr b, d1)) \<and>
   (db_fails e SaveConnect \<or> db_fails e UserIdLookup \<or> telegram_id \<notin> snd ` set (users d)
      \<or> db_fails e InsertExpense \<or> db_fails e Commit \<longrightarrow>
      save_expense e d telegram_id descr amt cat = (Inr False, d)) \<and>
   (fst (save_expense e d telegram_id descr amt cat) = Inr False \<longrightarrow>
      snd (save_expense e d telegram_id descr amt cat) = d) \<and>
   (fst (save_expense e d telegram_id descr amt cat) = Inr True \<longrightarrow>
      (\<exists>row. snd (save_expense e d telegram_id descr amt cat) = d\<lparr>expenses := expenses d @ [row]\<rparr>
         \<and> added_at row = utcnow e
         \<and> Some (user_id row) = fetchone (CHECK_USER_WHITELIST d telegram_id)
         \<and> description row = bind_text e descr
         \<and> amount row = bind_numeric e amt
         \<and> category row = bind_text e cat)) \<and>
   (fst (is_user_authorized e (db w) telegram_id) = Inr True \<and>
      extractor e w message = (Inr analysis, w1) \<and>
      truthy (dict_get analysis ''is_expense'' (PBool False)) \<and>
      invalid_expense_data (dict_get analysis ''description'' PNone)
         (dict_get analysis ''amount'' (PInt 0)) = Inr False \<and>
      fst (save_expense e (db w1) telegram_id (dict_get analysis ''description'' PNone)
             (dict_get analysis ''amount'' (PInt 0))
             (dict_get analysis ''category'' (PStr ''Other''))) = Inr False \<longrightarrow>
      process_expense_with extractor e w telegram_id message
        = (Inr (Failure DATABASE_SAVE_ERROR), w1)) \<and>
   (\<exists>r w2. process_expense e w telegram_id message = (Inr r, w2))"
proof (intro conjI impI)
  show "\<exists>b d1. save_expense e d telegram_id descr amt cat = (Inr b, d1)"
    by (auto simp: save_expense_cases)
next
  assume "db_fails e SaveConnect \<or> db_fails e UserIdLookup \<or> telegram_id \<notin> snd ` set (users d)
      \<or> db_fails e InsertExpense \<or> db_fails e Commit"
  then show "save_expense e d telegram_id descr amt cat = (Inr False, d)"
    by (auto simp: save_expense_cases CHECK_USER_WHITELIST_empty [symmetric] fetchone_def)
next
  assume "fst (save_expense e d telegram_id descr amt cat) = Inr False"
  then show "snd (save_expense e d telegram_id descr amt cat) = d"
    by (auto simp: save_expense_cases split: if_splits)
next
  assume "fst (save_expense e d telegram_id descr amt cat) = Inr True"
  then have ok: "\<not> not_user_id (fetchone (CHECK_USER_WHITELIST d telegram_id))"
    and s: "snd (save_expense e d telegram_id descr amt cat) = d\<lparr>expenses := expenses d
        @ INSERT_EXPENSE e (fetchone (CHECK_USER_WHITELIST d telegram_id)) descr amt cat\<rparr>"
    by (auto simp: save_expense_cases split: if_splits)
  from INSERT_EXPENSE_row [OF ok, of e descr amt cat] s
  show "\<exists>row. snd (save_expense e d telegram_id descr amt cat) = d\<lparr>expenses := expenses d @ [row]\<rparr>
         \<and> added_at row = utcnow e
         \<and> Some (user_id row) = fetchone (CHECK_USER_WHITELIST d telegram_id)
         \<and> description row = bind_text e descr
         \<and> amount row = bind_numeric e amt
         \<and> category row = bind_text e cat"
    by auto
next
  assume a: "fst (is_user_authorized e (db w) telegram_id) = Inr True \<and>
      extractor e w message = (Inr analysis, w1) \<and>
      truthy (dict_get analysis ''is_expense'' (PBool False)) \<and>
      invalid_expense_data (dict_get analysis ''description'' PNone)
         (dict_get analysis ''amount'' (PInt 0)) = Inr False \<and>
      fst (save_expense e (db w1) telegram_id (dict_get analysis ''description'' PNone)
             (dict_get analysis ''amount'' (PInt 0))
             (dict_get analysis ''category'' (PStr ''Other''))) = Inr False"
  then have auth: "is_user_authorized e (db w) telegram_id = (Inr True, db w)"
    using is_user_authorized_snd [of e "db w" telegram_id]
    by (cases "is_user_authorized e (db w) telegram_id") simp
  from a show "process_expense_with extractor e w telegram_id message
        = (Inr (Failure DATABASE_SAVE_ERROR), w1)"
    by (simp add: process_expense_with_def auth process_analysis_def save_analysis_cases)
next
  show "\<exists>r w2. process_expense e w telegram_id message = (Inr r, w2)"
    using process_expense_outcomes [of e w telegram_id message] by blast
qed

lemma float_of_int_20: "float_of_int 20 = Inr (Finite 20)"
  by code_simp

lemma float_of_int_12: "float_of_int 12 = Inr (Finite 12)"
  by code_simp

lemma json_str_sample: "json_str ''Here you go: {ok}'' = ''{ok}''"
  by (simp add: json_str_def)

lemma analyze_sample:
  "analyze_expense_message (sample_env\<lparr>db_fails := f\<rparr>) w ''Pizza 20 bucks''
     = (Inr (EXPENSE (PStr ''Pizza'') (Finite 20) (PStr ''Food'')),
        w\<lparr>llm_calls := llm_calls w @ [''Pizza 20 bucks'']\<rparr>)"
  by (simp add: analyze_expense_message_cases analyze_try_def sample_env_def json_str_sample
      sample_payload_def validate_response_dict dict_get_def invalid_expense_response_def
      float_of_int_20)

theorem save_expense_never_raises_witness:
  "db_fails (sample_env\<lparr>db_fails := \<lambda>s. s = Commit\<rparr>) Commit \<and>
   save_expense (sample_env\<lparr>db_fails := \<lambda>s. s = Commit\<rparr>) sample_db ''123456789''
       (PStr ''Pizza'') (PFloat (Finite 20)) (PStr ''Food'') = (Inr False, sample_db) \<and>
   fst (save_expense sample_env sample_db ''123456789''
       (PStr ''Pizza'') (PFloat (Finite 20)) (PStr ''Food'')) = Inr True \<and>
   (\<exists>row. snd (save_expense sample_env sample_db ''123456789''
              (PStr ''Pizza'') (PFloat (Finite 20)) (PStr ''Food''))
            = sample_db\<lparr>expenses := expenses sample_db @ [row]\<rparr>
          \<and> added_at row = utcnow sample_env
          \<and> Some (user_id row) = fetchone (CHECK_USER_WHITELIST sample_db ''123456789'')
          \<and> description row = bind_text sample_env (PStr ''Pizza'')
          \<and> amount row = bind_numeric sample_env (PFloat (Finite 20))
          \<and> category row = bind_text sample_env (PStr ''Food'')) \<and>
   snd (save_expense sample_env sample_db ''123456789''
          (PStr ''Pizza'') (PFloat (Finite 20)) (PStr ''Food''))
     = \<lparr>users = [(1, ''123456789''), (0, ''555'')],
        expenses = [\<lparr>user_id = 1, description = ''Pizza'', amount = Num 20, category = ''Food'',
                     added_at = 1700000000\<rparr>]\<rparr> \<and>
   process_expense_with analyze_expense_message (sample_env\<lparr>db_fails := \<lambda>s. s = Commit\<rparr>)
       sample_world ''123456789'' ''Pizza 20 bucks''
     = (Inr (Failure DATABASE_SAVE_ERROR),
        sample_world\<lparr>llm_calls := llm_calls sample_world @ [''Pizza 20 bucks'']\<rparr>)"
proof -
  let ?e = "sample_env\<lparr>db_fails := \<lambda>s. s = Commit\<rparr>"
  let ?a = "EXPENSE (PStr ''Pizza'') (Finite 20) (PStr ''Food'')"
  let ?w1 = "sample_world\<lparr>llm_calls := llm_calls sample_world @ [''Pizza 20 bucks'']\<rparr>"
  have f: "db_fails ?e Commit"
    by simp
  have t: "fst (save_expense sample_env sample_db ''123456789''
       (PStr ''Pizza'') (PFloat (Finite 20)) (PStr ''Food'')) = Inr True"
    by (simp add: save_expense_cases sample_env_def sample_db_def CHECK_USER_WHITELIST_def
        fetchone_def)
  have auth: "fst (is_user_authorized ?e (db sample_world) ''123456789'') = Inr True"
    by (simp add: is_user_authorized_def is_user_whitelisted_cases sample_env_def sample_db_def
        sample_world_def CHECK_USER_WHITELIST_def)
  have ex: "analyze_expense_message ?e sample_world ''Pizza 20 bucks'' = (Inr ?a, ?w1)"
    by (rule analyze_sample)
  have g: "dict_get ?a ''is_expense'' (PBool False) = PBool True"
    "dict_get ?a ''description'' PNone = PStr ''Pizza''"
    "dict_get ?a ''amount'' (PInt 0) = PFloat (Finite 20)"
    "dict_get ?a ''category'' (PStr ''Other'') = PStr ''Food''"
    by (simp_all add: EXPENSE_def dict_get_def)
  have v: "invalid_expense_data (PStr ''Pizza'') (PFloat (Finite 20)) = Inr False"
    by (simp add: invalid_expense_data_def)
  have s: "fst (save_expense ?e (db ?w1) ''123456789'' (PStr ''Pizza'') (PFloat (Finite 20))
      (PStr ''Food'')) = Inr False"
    by (simp add: save_expense_cases)
  note thm1 = save_expense_never_raises [where e = ?e and d = sample_db
      and telegram_id = "''123456789''" and descr = "PStr ''Pizza''" and amt = "PFloat (Finite 20)"
      and cat = "PStr ''Food''" and w = sample_world and extractor = analyze_expense_message
      and message = "''Pizza 20 bucks''" and analysis = ?a and ?w1.0 = ?w1]
  note thm2 = save_expense_never_raises [where e = sample_env and d = sample_db
      and telegram_id = "''123456789''" and descr = "PStr ''Pizza''" and amt = "PFloat (Finite 20)"
      and cat = "PStr ''Food''"]
  from thm1 f have 1: "save_expense ?e sample_db ''123456789''
       (PStr ''Pizza'') (PFloat (Finite 20)) (PStr ''Food'') = (Inr False, sample_db)"
    by blast
  from thm2 t have 2: "\<exists>row. snd (save_expense sample_env sample_db ''123456789''
              (PStr ''Pizza'') (PFloat (Finite 20)) (PStr ''Food''))
            = sample_db\<lparr>expenses := expenses sample_db @ [row]\<rparr>
          \<and> added_at row = utcnow sample_env
          \<and> Some (user_id row) = fetchone (CHECK_USER_WHITELIST sample_db ''123456789'')
          \<and> description row = bind_text sample_env (PStr ''Pizza'')
          \<and> amount row = bind_numeric sample_env (PFloat (Finite 20))
          \<and> category row = bind_text sample_env (PStr ''Food'')"
    by blast
  from thm1 auth ex g v s
  have 3: "process_expense_with analyze_expense_message ?e sample_world ''123456789''
      ''Pizza 20 bucks'' = (Inr (Failure DATABASE_SAVE_ERROR), ?w1)"
    by simp
  from 2 have 4: "snd (save_expense sample_env sample_db ''123456789''
          (PStr ''Pizza'') (PFloat (Finite 20)) (PStr ''Food''))
     = \<lparr>users = [(1, ''123456789''), (0, ''555'')],
        expenses = [\<lparr>user_id = 1, description = ''Pizza'', amount = Num 20, category = ''Food'',
                     added_at = 1700000000\<rparr>]\<rparr>"
    by (auto simp: sample_env_def sample_db_def CHECK_USER_WHITELIST_def fetchone_def)
  from f 1 t 2 3 4 show ?thesis by blast
qed

section \<open>Categories, the JSON text and the amount\<close>

lemma dict_get_update:
  "dict_get (AList.update k v d) k' dflt = (if k' = k then v else dict_get d k' dflt)"
  by (simp add: dict_get_def update_conv')

lemma EXPENSE_not_NOT_EXPENSE: "EXPENSE descr f cat \<noteq> NOT_EXPENSE"
  by (simp add: EXPENSE_def NOT_EXPENSE_def)

lemma dict_get_EXPENSE_category: "dict_get (EXPENSE descr f cat) ''category'' dflt = cat"
  by (simp add: EXPENSE_def dict_get_def)

lemma validate_response_EXPENSE:
  assumes "validate_response (PDict d) = Inr a" and "a \<noteq> NOT_EXPENSE"
  shows "\<exists>f. a = EXPENSE (dict_get d ''description'' PNone) f (dict_get d ''category'' (PStr ''Other''))
    \<and> truthy (dict_get d ''is_expense'' (PBool False))
    \<and> invalid_expense_response (dict_get d ''description'' PNone) (dict_get d ''amount'' PNone) = Inr False
    \<and> py_float (dict_get d ''amount'' PNone) = Inr f"
  using assms unfolding validate_response_dict
  by (auto split: if_splits sum.splits bool.splits)

text \<open>
  The extractor does not look the category up in \<^verbatim>\<open>EXPENSE_CATEGORIES\<close>: a payload with
  the category \<^verbatim>\<open>Groceries\<close> is returned with that category, and \<^verbatim>\<open>process_expense\<close> stores
  a row with it.
\<close>

theorem category_passed_through_counterexample:
  "fst (analyze_expense_message (sample_env\<lparr>json_loads := \<lambda>s. Inr groceries_payload\<rparr>)
          sample_world ''Taxi 12'')
     = Inr (EXPENSE (PStr ''Taxi'') (Finite 12) (PStr ''Groceries'')) \<and>
   process_expense (sample_env\<lparr>json_loads := \<lambda>s. Inr groceries_payload\<rparr>)
       sample_world ''123456789'' ''Taxi 12''
     = (Inr (Success (PStr ''Groceries'') (PStr ''Taxi'') (PFloat (Finite 12))
               (EXPENSE_ADDED (PStr ''Groceries''))),
        \<lparr>db = \<lparr>users = [(1, ''123456789''), (0, ''555'')],
               expenses = [\<lparr>user_id = 1, description = ''Taxi'', amount = Num 12,
                            category = ''Groceries'', added_at = 1700000000\<rparr>]\<rparr>,
         llm_calls = [''Taxi 12'']\<rparr>) \<and>
   ''Groceries'' \<notin> set EXPENSE_CATEGORIES"
proof -
  let ?e = "sample_env\<lparr>json_loads := \<lambda>s. Inr groceries_payload\<rparr>"
  have t: "analyze_try ?e ''Taxi 12'' = Inr (EXPENSE (PStr ''Taxi'') (Finite 12) (PStr ''Groceries''))"
    by (simp add: analyze_try_def sample_env_def groceries_payload_def validate_response_dict
        dict_get_def invalid_expense_response_def float_of_int_12)
  have a: "fst (is_user_authorized ?e (db sample_world) ''123456789'') = Inr True"
    by (simp add: is_user_authorized_def is_user_whitelisted_cases sample_env_def sample_db_def
        sample_world_def CHECK_USER_WHITELIST_def)
  have p: "process_analysis ?e w ''123456789'' (EXPENSE (PStr ''Taxi'') (Finite 12) (PStr ''Groceries''))
      = save_analysis ?e w ''123456789'' (PStr ''Taxi'') (PFloat (Finite 12)) (PStr ''Groceries'')" for w
    by (rule process_analysis_EXPENSE) simp_all
  have 1: "fst (analyze_expense_message ?e sample_world ''Taxi 12'')
     = Inr (EXPENSE (PStr ''Taxi'') (Finite 12) (PStr ''Groceries''))"
    by (simp add: analyze_expense_message_cases t)
  have 2: "process_expense ?e sample_world ''123456789'' ''Taxi 12''
     = (Inr (Success (PStr ''Groceries'') (PStr ''Taxi'') (PFloat (Finite 12))
               (EXPENSE_ADDED (PStr ''Groceries''))),
        \<lparr>db = \<lparr>users = [(1, ''123456789''), (0, ''555'')],
               expenses = [\<lparr>user_id = 1, description = ''Taxi'', amount = Num 12,
                            category = ''Groceries'', added_at = 1700000000\<rparr>]\<rparr>,
         llm_calls = [''Taxi 12'']\<rparr>)"
    by (simp add: process_expense_cases a t p save_analysis_cases save_expense_cases)
      (simp add: sample_env_def sample_world_def sample_db_def CHECK_USER_WHITELIST_def
        fetchone_def INSERT_EXPENSE_def)
  have 3: "''Groceries'' \<notin> set EXPENSE_CATEGORIES"
    by (simp add: EXPENSE_CATEGORIES_def)
  from 1 2 3 show ?thesis by blast
qed

text \<open>
  Claim C1, as amended. When the extractor accepts a payload, the category of its result
  is \<^verbatim>\<open>Other\<close> (a member of the fixed set) where the payload has no \<^verbatim>\<open>category\<close> key, and
  the payload's own value otherwise, whether that is a member of the fixed set or not;
  and the payload stays accepted, with the new category, whatever value its category is
  replaced by: no category causes a rejection.
\<close>

theorem category_passed_through:
  assumes "validate_response (PDict d) = Inr a" and "a \<noteq> NOT_EXPENSE"
  shows "dict_get a ''category'' PNone
           = (case map_of d ''category'' of None \<Rightarrow> PStr ''Other'' | Some c \<Rightarrow> c) \<and>
         (\<forall>c. \<exists>b. validate_response (PDict (AList.update ''category'' c d)) = Inr b
                \<and> b \<noteq> NOT_EXPENSE \<and> dict_get b ''category'' PNone = c) \<and>
         ''Other'' \<in> set EXPENSE_CATEGORIES"
proof -
  from validate_response_EXPENSE [OF assms] obtain f where
    a: "a = EXPENSE (dict_get d ''description'' PNone) f (dict_get d ''category'' (PStr ''Other''))"
    and t: "truthy (dict_get d ''is_expense'' (PBool False))"
    and v: "invalid_expense_response (dict_get d ''description'' PNone) (dict_get d ''amount'' PNone)
        = Inr False"
    and f: "py_float (dict_get d ''amount'' PNone) = Inr f"
    by blast
  have 1: "dict_get a ''category'' PNone
      = (case map_of d ''category'' of None \<Rightarrow> PStr ''Other'' | Some c \<Rightarrow> c)"
    by (simp add: a dict_get_EXPENSE_category) (simp add: dict_get_def)
  have 2: "\<exists>b. validate_response (PDict (AList.update ''category'' c d)) = Inr b
      \<and> b \<noteq> NOT_EXPENSE \<and> dict_get b ''category'' PNone = c" for c
    using t v f
    by (simp add: validate_response_dict dict_get_update EXPENSE_not_NOT_EXPENSE
        dict_get_EXPENSE_category)
  have 3: "''Other'' \<in> set EXPENSE_CATEGORIES"
    by (simp add: EXPENSE_CATEGORIES_def)
  from 1 2 3 show ?thesis by blast
qed

theorem category_passed_through_witness:
  "validate_response sample_payload = Inr (EXPENSE (PStr ''Pizza'') (Finite 20) (PStr ''Food'')) \<and>
   EXPENSE (PStr ''Pizza'') (Finite 20) (PStr ''Food'') \<noteq> NOT_EXPENSE \<and>
   dict_get (EXPENSE (PStr ''Pizza'') (Finite 20) (PStr ''Food'')) ''category'' PNone = PStr ''Food'' \<and>
   (\<exists>b. validate_response (PDict (AList.update ''category'' (PStr ''Groceries'')
            [(''is_expense'', PBool True), (''description'', PStr ''Pizza''),
             (''amount'', PInt 20), (''category'', PStr ''Food'')])) = Inr b
        \<and> b \<noteq> NOT_EXPENSE \<and> dict_get b ''category'' PNone = PStr ''Groceries'')"
proof -
  let ?d = "[(''is_expense'', PBool True), (''description'', PStr ''Pizza''),
             (''amount'', PInt 20), (''category'', PStr ''Food'')]"
  let ?a = "EXPENSE (PStr ''Pizza'') (Finite 20) (PStr ''Food'')"
  have v: "validate_response (PDict ?d) = Inr ?a"
    by (simp add: validate_response_dict dict_get_def invalid_expense_response_def float_of_int_20)
  have n: "?a \<noteq> NOT_EXPENSE"
    by (rule EXPENSE_not_NOT_EXPENSE)
  from category_passed_through [OF v n] v n show ?thesis
    by (simp add: sample_payload_def)
qed

text \<open>
  The text the regular expression selects runs from an opening brace to the first closing
  brace after it, so it holds one closing brace only and is never an object with an
  object nested in it.
\<close>

lemma lazy_to_close_Some:
  "lazy_to_close s = Some m \<Longrightarrow>
   \<exists>pre post. m = pre @ ''}'' \<and> CHR ''}'' \<notin> set pre \<and> s = m @ post"
proof (induction s arbitrary: m)
  case Nil
  then show ?case by simp
next
  case (Cons c cs)
  show ?case
  proof (cases "c = CHR ''}''")
    case True
    with Cons.prems show ?thesis by auto
  next
    case False
    with Cons.prems obtain m' where m': "lazy_to_close cs = Some m'" and m: "m = c # m'"
      by auto
    from Cons.IH [OF m'] obtain pre post where
      "m' = pre @ ''}''" "CHR ''}'' \<notin> set pre" "cs = m' @ post" by blast
    with False m have "m = (c # pre) @ ''}'' \<and> CHR ''}'' \<notin> set (c # pre) \<and> c # cs = m @ post"
      by simp
    then show ?thesis by blast
  qed
qed

lemma re_search_Some:
  "re_search s = Some m \<Longrightarrow>
   \<exists>before pre post. s = before @ m @ post \<and> m = ''{'' @ pre @ ''}'' \<and> CHR ''}'' \<notin> set pre"
proof (induction s)
  case Nil
  then show ?case by simp
next
  case (Cons c cs)
  show ?case
  proof (cases "c = CHR ''{'' \<and> lazy_to_close cs \<noteq> None")
    case True
    then obtain m' where m': "lazy_to_close cs = Some m'" by auto
    with True Cons.prems have m: "m = c # m'" by simp
    from lazy_to_close_Some [OF m'] obtain pre post where
      "m' = pre @ ''}''" "CHR ''}'' \<notin> set pre" "cs = m' @ post" by blast
    with True m have "c # cs = [] @ m @ post \<and> m = ''{'' @ pre @ ''}'' \<and> CHR ''}'' \<notin> set pre"
      by simp
    then show ?thesis by blast
  next
    case False
    with Cons.prems have "re_search cs = Some m"
      by (auto split: if_splits option.splits)
    from Cons.IH [OF this] obtain before pre post where
      "cs = before @ m @ post" "m = ''{'' @ pre @ ''}''" "CHR ''}'' \<notin> set pre" by blast
    then have "c # cs = (c # before) @ m @ post \<and> m = ''{'' @ pre @ ''}'' \<and> CHR ''}'' \<notin> set pre"
      by simp
    then show ?thesis by blast
  qed
qed

text \<open>
  Claim C2, on a completion that is one well-formed object with a nested object: the
  text handed to \<^verbatim>\<open>json.loads\<close> stops at the closing brace of the nested object and is
  not the whole object.
\<close>

theorem json_str_nested_object:
  \<open>json_str ''{"is_expense": true, "description": "Pizza", "amount": 20, "category": "Food", "tags": {"shared": false}}''
     = ''{"is_expense": true, "description": "Pizza", "amount": 20, "category": "Food", "tags": {"shared": false}''\<close>
  by (simp add: json_str_def)

text \<open>
  Claim C9, on a payload whose amount is NaN: NaN is true and \<^verbatim>\<open>NaN <= 0\<close> is false, so
  the extractor returns an expense whose amount is NaN, which is not strictly positive,
  and \<^verbatim>\<open>process_expense\<close> reports it as saved.
\<close>

theorem nan_amount_accepted:
  "fst (analyze_expense_message (sample_env\<lparr>json_loads := \<lambda>s. Inr nan_payload\<rparr>)
          sample_world ''Pizza'')
     = Inr (EXPENSE (PStr ''Pizza'') NaN (PStr ''Food'')) \<and>
   \<not> float_positive NaN \<and>
   fst (process_expense (sample_env\<lparr>json_loads := \<lambda>s. Inr nan_payload\<rparr>)
          sample_world ''123456789'' ''Pizza'')
     = Inr (Success (PStr ''Food'') (PStr ''Pizza'') (PFloat NaN) (EXPENSE_ADDED (PStr ''Food'')))"
proof -
  let ?e = "sample_env\<lparr>json_loads := \<lambda>s. Inr nan_payload\<rparr>"
  have t: "analyze_try ?e ''Pizza'' = Inr (EXPENSE (PStr ''Pizza'') NaN (PStr ''Food''))"
    by (simp add: analyze_try_def sample_env_def nan_payload_def validate_response_dict
        dict_get_def invalid_expense_response_def)
  have a: "fst (is_user_authorized ?e (db sample_world) ''123456789'') = Inr True"
    by (simp add: is_user_authorized_def is_user_whitelisted_cases sample_env_def sample_db_def
        sample_world_def CHECK_USER_WHITELIST_def)
  have p: "process_analysis ?e w ''123456789'' (EXPENSE (PStr ''Pizza'') NaN (PStr ''Food''))
      = save_analysis ?e w ''123456789'' (PStr ''Pizza'') (PFloat NaN) (PStr ''Food'')" for w
    by (rule process_analysis_EXPENSE) simp_all
  have 1: "fst (analyze_expense_message ?e sample_world ''Pizza'')
     = Inr (EXPENSE (PStr ''Pizza'') NaN (PStr ''Food''))"
    by (simp add: analyze_expense_message_cases t)
  have 2: "fst (process_expense ?e sample_world ''123456789'' ''Pizza'')
     = Inr (Success (PStr ''Food'') (PStr ''Pizza'') (PFloat NaN) (EXPENSE_ADDED (PStr ''Food'')))"
    by (simp add: process_expense_cases a t p save_analysis_cases save_expense_cases)
      (simp add: sample_env_def sample_world_def sample_db_def CHECK_USER_WHITELIST_def
        fetchone_def)
  from 1 2 show ?thesis by simp
qed

section \<open>The two read paths\<close>











subsection \<open>The error of one rounding\<close>






lemma pow2_neg: "k < 0 \<Longrightarrow> pow2 k = 1 / 2 ^ nat (- k)"
  by (simp add: pow2_def)











subsection \<open>The error of a float sum\<close>


















subsection \<open>The two totals\<close>




















end
